theory Spec2Isabelle
  imports Main "HOL-Library.Sublist" "HOL-Library.Word"
begin

section \<open>Python values, exceptions and streams\<close>

text \<open>
  The adapter in \<^verbatim>\<open>agentcore/main.py\<close> receives a JSON-compatible payload and handles
  the units of the agent's stream. Both are Python objects; the model has the values JSON
  decoding produces: \<^verbatim>\<open>None\<close>, booleans, integers, floats (the 64 bits of the double,
  never inspected), strings, lists and dictionaries with string keys (an association list,
  looked up from the front).
\<close>

datatype pyval =
    PNone
  | PBool bool
  | PInt int
  | PFloat "64 word"
  | PStr string
  | PList "pyval list"
  | PDict "(string \<times> pyval) list"

text \<open>
  Exception classes. The adapter's own steps can raise \<^verbatim>\<open>AttributeError\<close> (no method
  \<^verbatim>\<open>get\<close>) and \<^verbatim>\<open>TypeError\<close> (no containment test). \<^verbatim>\<open>StopIteration\<close> and
  \<^verbatim>\<open>StopAsyncIteration\<close> (each with its subclasses) are the two classes Python's generator
  protocol treats specially, and \<^verbatim>\<open>RuntimeError\<close> is what it turns them into. The agent
  may raise any of these; every other class is named by a string.
\<close>

datatype pyexn =
    AttributeError
  | TypeError
  | RuntimeError
  | StopIteration
  | StopAsyncIteration
  | BackendError string

datatype ending = Completed | Raised pyexn

text \<open>
  An asynchronous stream that is consumed to its end: the units its \<^verbatim>\<open>__anext__\<close>
  produces, in order, and how it ends: exhausted, or an exception raised by
  \<^verbatim>\<open>__anext__\<close> after the last unit. Exhaustion is \<^verbatim>\<open>__anext__\<close> raising
  \<^verbatim>\<open>StopAsyncIteration\<close>, so \<open>Raised StopAsyncIteration\<close> is another way to write
  \<open>Completed\<close>. The agent's stream is assumed finite. The output of \<^verbatim>\<open>invoke\<close> has the
  same shape: the events yielded and how the generator ends.
\<close>

type_synonym astream = "pyval list \<times> ending"

text \<open>
  The agent handle is external (\<^verbatim>\<open>strands.Agent\<close>); it is a parameter. It keeps the
  conversation, so its answer to a prompt may depend on the prompts of earlier calls. The
  call \<^verbatim>\<open>agent.stream_async(prompt)\<close> either raises before there is a stream to iterate
  (\<open>Inl\<close>; this stands for an exception of \<^verbatim>\<open>__aiter__\<close> too) or gives a stream
  (\<open>Inr\<close>). This agent only reads the prompt it is handed; \<open>writing_agent\<close> below is the
  agent that may also write to it.
\<close>

type_synonym agent = "pyval list \<Rightarrow> pyval \<Rightarrow> pyexn + astream"

text \<open>
  An agent that may write to the prompt object: beside its answer it gives the content it
  leaves in that object when the invocation ends.
\<close>

type_synonym writing_agent = "pyval list \<Rightarrow> pyval \<Rightarrow> (pyexn + astream) \<times> pyval"

text \<open>
  The state an invocation runs in: the payload object the host passed, and the log of the
  arguments \<^verbatim>\<open>agent.stream_async\<close> has been called with so far.
\<close>

record world =
  payload :: pyval
  calls :: "pyval list"

section \<open>The operations of the source\<close>

definition MODEL_ID :: string where
  "MODEL_ID = ''anthropic.claude-3-5-sonnet-20240620-v1:0''"

definition FALLBACK :: string where
  "FALLBACK = ''No prompt found in input, please guide customer to create a json payload with prompt key''"

text \<open>\<^verbatim>\<open>obj.get(key, default)\<close>: only a dictionary has the method.\<close>

fun py_get :: "pyval \<Rightarrow> string \<Rightarrow> pyval \<Rightarrow> pyexn + pyval" where
  "py_get (PDict kvs) k d = Inr (case map_of kvs k of None \<Rightarrow> d | Some v \<Rightarrow> v)"
| "py_get v k d = Inl AttributeError"

text \<open>Python's \<^verbatim>\<open>a in b\<close> on two strings: \<^verbatim>\<open>a\<close> occurs in \<^verbatim>\<open>b\<close> as a contiguous run.\<close>

fun is_substr :: "string \<Rightarrow> string \<Rightarrow> bool" where
  "is_substr xs [] = (xs = [])"
| "is_substr xs (y # ys) = (prefix xs (y # ys) \<or> is_substr xs ys)"

text \<open>
  \<^verbatim>\<open>key in obj\<close> for a string \<^verbatim>\<open>key\<close>: a key of a dictionary, an element of a list
  (only a string equals a string), a substring of a string; the other values have no
  containment test and raise \<^verbatim>\<open>TypeError\<close>.
\<close>

fun py_contains :: "string \<Rightarrow> pyval \<Rightarrow> pyexn + bool" where
  "py_contains k (PDict kvs) = Inr (map_of kvs k \<noteq> None)"
| "py_contains k (PList xs) = Inr (List.member xs (PStr k))"
| "py_contains k (PStr s) = Inr (is_substr k s)"
| "py_contains k v = Inl TypeError"

text \<open>
  \<^verbatim>\<open>invoke\<close> is an async generator, and it has no \<^verbatim>\<open>try\<close>: an exception raised in its
  body leaves it. Python does not let a \<^verbatim>\<open>StopIteration\<close> or \<^verbatim>\<open>StopAsyncIteration\<close>
  leave the body of an async generator: the caller gets \<^verbatim>\<open>RuntimeError\<close> instead. Every
  other exception leaves as it is.
\<close>

fun is_stop_signal :: "pyexn \<Rightarrow> bool" where
  "is_stop_signal StopIteration = True"
| "is_stop_signal StopAsyncIteration = True"
| "is_stop_signal e = False"

definition leaving :: "pyexn \<Rightarrow> pyexn" where
  "leaving e = (if is_stop_signal e then RuntimeError else e)"

text \<open>
  How the generator ends when the stream ends: \<^verbatim>\<open>async for\<close> takes
  \<^verbatim>\<open>StopAsyncIteration\<close> from \<^verbatim>\<open>__anext__\<close> as the end of the loop, after which the body
  returns; any other exception of \<^verbatim>\<open>__anext__\<close> leaves the body.
\<close>

fun stream_end :: "ending \<Rightarrow> ending" where
  "stream_end Completed = Completed"
| "stream_end (Raised StopAsyncIteration) = Completed"
| "stream_end (Raised e) = Raised (leaving e)"

text \<open>
  The loop \<^verbatim>\<open>async for event in agent_stream: if "event" in event: yield event\<close>,
  on the units still to come and the ending of the agent's stream. An exception of the
  test ends the generator at that unit; the units after it are never asked for.
\<close>

fun forward :: "pyval list \<Rightarrow> ending \<Rightarrow> astream" where
  "forward [] fin = ([], stream_end fin)"
| "forward (event # rest) fin =
     (case py_contains ''event'' event of
        Inl err \<Rightarrow> ([], Raised (leaving err))
      | Inr True \<Rightarrow> (event # fst (forward rest fin), snd (forward rest fin))
      | Inr False \<Rightarrow> forward rest fin)"

text \<open>
  Lines 20 to 23 on what the call \<^verbatim>\<open>agent.stream_async(user_prompt)\<close> gave: an exception
  of the call leaves the generator before anything is yielded, a stream is forwarded.
\<close>

fun relay :: "pyexn + astream \<Rightarrow> astream" where
  "relay (Inl err) = ([], Raised (leaving err))"
| "relay (Inr agent_stream) = forward (fst agent_stream) (snd agent_stream)"

text \<open>
  \<^verbatim>\<open>invoke(payload)\<close>, consumed to its end: the events it yields and how it ends, and
  the state afterwards.
\<close>

definition invoke :: "agent \<Rightarrow> world \<Rightarrow> astream \<times> world" where
  "invoke agent w =
     (case py_get (payload w) ''prompt'' (PStr FALLBACK) of
        Inl err \<Rightarrow> (([], Raised (leaving err)), w)
      | Inr user_prompt \<Rightarrow>
          (let opened = agent (calls w) user_prompt;
               w' = w\<lparr>calls := calls w @ [user_prompt]\<rparr>
           in (relay opened, w')))"

text \<open>
  The same lines when the agent may write to the prompt object. \<^verbatim>\<open>payload.get\<close> returns
  the object stored under \<^verbatim>\<open>prompt\<close> itself, not a copy, and that object is what
  \<^verbatim>\<open>stream_async\<close> is handed: what the agent writes to it shows in the payload. Only a
  list or a dictionary can be written to, and it stays a list or a dictionary; the
  fallback string is not part of the payload.
\<close>

fun is_mutable :: "pyval \<Rightarrow> bool" where
  "is_mutable (PList xs) = True"
| "is_mutable (PDict kvs) = True"
| "is_mutable v = False"

fun py_written :: "pyval \<Rightarrow> pyval \<Rightarrow> pyval" where
  "py_written (PList xs) (PList ys) = PList ys"
| "py_written (PDict kvs) (PDict kvs') = PDict kvs'"
| "py_written old new = old"

fun set_present :: "string \<Rightarrow> pyval \<Rightarrow> (string \<times> pyval) list \<Rightarrow> (string \<times> pyval) list" where
  "set_present k v [] = []"
| "set_present k v ((k', x) # kvs) =
     (if k' = k then (k', v) # kvs else (k', x) # set_present k v kvs)"

fun prompt_object_written :: "pyval \<Rightarrow> pyval \<Rightarrow> pyval" where
  "prompt_object_written (PDict kvs) v = PDict (set_present ''prompt'' v kvs)"
| "prompt_object_written p v = p"

definition invoke_aliased :: "writing_agent \<Rightarrow> world \<Rightarrow> astream \<times> world" where
  "invoke_aliased agent w =
     (case py_get (payload w) ''prompt'' (PStr FALLBACK) of
        Inl err \<Rightarrow> (([], Raised (leaving err)), w)
      | Inr user_prompt \<Rightarrow>
          (let answer = agent (calls w) user_prompt;
               left = py_written user_prompt (snd answer);
               w' = w\<lparr>payload := prompt_object_written (payload w) left,
                      calls := calls w @ [user_prompt]\<rparr>
           in (relay (fst answer), w')))"

text \<open>What the spec calls an event exposing an \<^verbatim>\<open>event\<close> key: a mapping with that key.\<close>

fun is_mapping :: "pyval \<Rightarrow> bool" where
  "is_mapping (PDict kvs) = True"
| "is_mapping v = False"

fun has_event_key :: "pyval \<Rightarrow> bool" where
  "has_event_key (PDict kvs) = (map_of kvs ''event'' \<noteq> None)"
| "has_event_key v = False"

text \<open>The values with a containment test.\<close>

fun has_containment :: "pyval \<Rightarrow> bool" where
  "has_containment (PDict kvs) = True"
| "has_containment (PList xs) = True"
| "has_containment (PStr s) = True"
| "has_containment v = False"

fun is_str :: "pyval \<Rightarrow> bool" where
  "is_str (PStr s) = True"
| "is_str v = False"

section \<open>Test doubles for the agent handle\<close>

definition silent_agent :: agent where
  "silent_agent history prompt = Inr ([], Completed)"

definition demo_agent :: agent where
  "demo_agent history prompt =
     Inr ([PDict [(''event'', PStr ''start'')],
           PDict [(''data'', PInt 1)],
           PDict [(''event'', PStr ''stop''), (''extra'', PNone)]], Completed)"





definition counting_agent :: agent where
  "counting_agent history prompt =
     Inr ([PDict [(''event'', PInt (int (length history)))]], Completed)"

definition mixed_agent :: agent where
  "mixed_agent history prompt =
     (if prompt = PStr ''strings''
      then Inr ([PDict [(''event'', PInt 0)], PStr ''an event'', PDict [(''data'', PInt 1)]], Completed)
      else Inr ([PDict [(''event'', PInt 0)], PInt 5, PDict [(''event'', PInt 2)]], Completed))"

fun appended :: "pyval \<Rightarrow> pyval" where
  "appended (PList xs) = PList (xs @ [PStr ''mutated''])"
| "appended v = v"

definition appending_agent :: writing_agent where
  "appending_agent history prompt = (Inr ([PDict [(''event'', PStr ''start'')]], Completed), appended prompt)"

section \<open>Facts about the loop\<close>

lemma is_substr_sublist: "is_substr xs ys = sublist xs ys"
  by (induction ys) (simp_all add: sublist_Cons_right)



lemma forward_mappings:
  "list_all is_mapping units \<Longrightarrow> forward units fin = (filter has_event_key units, stream_end fin)"
proof (induction units)
  case Nil
  then show ?case by simp
next
  case (Cons u us)
  then obtain kvs where "u = PDict kvs" by (cases u) simp_all
  with Cons show ?case by simp
qed

lemma forward_append_mappings:
  "list_all is_mapping pre \<Longrightarrow>
   forward (pre @ rest) fin = (filter has_event_key pre @ fst (forward rest fin), snd (forward rest fin))"
proof (induction pre)
  case Nil
  then show ?case by simp
next
  case (Cons u us)
  then obtain kvs where "u = PDict kvs" by (cases u) simp_all
  with Cons show ?case by simp
qed


lemma py_contains_no_containment:
  "\<not> has_containment u \<Longrightarrow> py_contains k u = Inl TypeError"
  by (cases u) simp_all

lemma invoke_mapping:
  "payload w = PDict kvs \<Longrightarrow>
   invoke agent w =
     (relay (agent (calls w) (case map_of kvs ''prompt'' of None \<Rightarrow> PStr FALLBACK | Some v \<Rightarrow> v)),
      w\<lparr>calls := calls w @ [case map_of kvs ''prompt'' of None \<Rightarrow> PStr FALLBACK | Some v \<Rightarrow> v]\<rparr>)"
  by (simp add: invoke_def Let_def)

section \<open>Facts about the prompt object\<close>

lemma set_present_keys: "map fst (set_present k v kvs) = map fst kvs"
  by (induction kvs) auto

lemma set_present_other: "k' \<noteq> k \<Longrightarrow> map_of (set_present k v kvs) k' = map_of kvs k'"
  by (induction kvs) auto

lemma set_present_absent: "map_of kvs k = None \<Longrightarrow> set_present k v kvs = kvs"
  by (induction kvs) (auto split: if_splits)

lemma set_present_same: "map_of kvs k = Some v \<Longrightarrow> set_present k v kvs = kvs"
  by (induction kvs) (auto split: if_splits)

lemma py_written_immutable: "\<not> is_mutable old \<Longrightarrow> py_written old new = old"
  by (cases old) simp_all

lemma py_written_same: "py_written v v = v"
  by (cases v) simp_all

lemma invoke_aliased_mapping:
  "payload w = PDict kvs \<Longrightarrow>
   p = (case map_of kvs ''prompt'' of None \<Rightarrow> PStr FALLBACK | Some v \<Rightarrow> v) \<Longrightarrow>
   invoke_aliased agent w =
     (relay (fst (agent (calls w) p)),
      w\<lparr>payload := PDict (set_present ''prompt'' (py_written p (snd (agent (calls w) p))) kvs),
        calls := calls w @ [p]\<rparr>)"
  by (simp add: invoke_aliased_def Let_def)

text \<open>For an agent that writes nothing, the two readings of the source agree.\<close>

lemma invoke_aliased_reading:
  "invoke_aliased (\<lambda>history prompt. (agent history prompt, prompt)) w = invoke agent w"
proof (cases "payload w")
  case (PDict kvs)
  have "set_present ''prompt'' (case map_of kvs ''prompt'' of None \<Rightarrow> PStr FALLBACK | Some v \<Rightarrow> v) kvs = kvs"
    by (cases "map_of kvs ''prompt''") (simp_all add: set_present_absent set_present_same)
  moreover have "w\<lparr>payload := PDict kvs, calls := c\<rparr> = w\<lparr>calls := c\<rparr>" for c
    using PDict by simp
  ultimately show ?thesis
    using PDict by (simp add: invoke_aliased_def invoke_def Let_def py_written_same)
qed (simp_all add: invoke_aliased_def invoke_def)

section \<open>The claims\<close>

text \<open>
  C1. A payload with a non-empty string under \<^verbatim>\<open>prompt\<close>: the agent's stream is opened
  exactly once, with exactly that string (the call log grows by that one entry), and the
  output is the units of the stream that carry an \<^verbatim>\<open>event\<close> key, in the order received,
  unchanged; the generator ends as the stream does. The stream's units are events, that
  is mappings.
\<close>

theorem invoke_forwards_event_units:
  assumes "payload w = PDict kvs"
    and "map_of kvs ''prompt'' = Some (PStr p)"
    and "p \<noteq> []"
    and "agent (calls w) (PStr p) = Inr (units, fin)"
    and "list_all is_mapping units"
  shows "invoke agent w =
           ((filter has_event_key units, stream_end fin), w\<lparr>calls := calls w @ [PStr p]\<rparr>)"
  using assms by (simp add: invoke_mapping forward_mappings)

theorem invoke_forwards_event_units_witness:
  "payload \<lparr>payload = PDict [(''prompt'', PStr ''2+2?'')], calls = []\<rparr> = PDict [(''prompt'', PStr ''2+2?'')]
   \<and> map_of [(''prompt'', PStr ''2+2?'')] ''prompt'' = Some (PStr ''2+2?'')
   \<and> ''2+2?'' \<noteq> []
   \<and> demo_agent [] (PStr ''2+2?'') =
       Inr ([PDict [(''event'', PStr ''start'')], PDict [(''data'', PInt 1)],
             PDict [(''event'', PStr ''stop''), (''extra'', PNone)]], Completed)
   \<and> list_all is_mapping [PDict [(''event'', PStr ''start'')], PDict [(''data'', PInt 1)],
                            PDict [(''event'', PStr ''stop''), (''extra'', PNone)]]
   \<and> invoke demo_agent \<lparr>payload = PDict [(''prompt'', PStr ''2+2?'')], calls = []\<rparr> =
       (([PDict [(''event'', PStr ''start'')], PDict [(''event'', PStr ''stop''), (''extra'', PNone)]], Completed),
        \<lparr>payload = PDict [(''prompt'', PStr ''2+2?'')], calls = [PStr ''2+2?'']\<rparr>)"
  using invoke_forwards_event_units
    [of "\<lparr>payload = PDict [(''prompt'', PStr ''2+2?'')], calls = []\<rparr>"
        "[(''prompt'', PStr ''2+2?'')]" "''2+2?''" demo_agent
        "[PDict [(''event'', PStr ''start'')], PDict [(''data'', PInt 1)],
          PDict [(''event'', PStr ''stop''), (''extra'', PNone)]]" Completed]
  by (simp add: demo_agent_def)

text \<open>
  C2. A mapping payload with no \<^verbatim>\<open>prompt\<close> key: the fixed fallback string is the prompt.
  The agent is called once with it, the access step raises nothing, and the outcome is
  the one of an invocation whose payload carries the fallback text under \<^verbatim>\<open>prompt\<close>:
  what the agent's answer to that text gives, forwarded.
\<close>

theorem invoke_missing_prompt_uses_fallback:
  assumes "payload w = PDict kvs"
    and "map_of kvs ''prompt'' = None"
  shows "invoke agent w =
           (relay (agent (calls w) (PStr FALLBACK)), w\<lparr>calls := calls w @ [PStr FALLBACK]\<rparr>)
       \<and> fst (invoke agent w) = fst (invoke agent (w\<lparr>payload := PDict [(''prompt'', PStr FALLBACK)]\<rparr>))
       \<and> (\<forall>units fin. agent (calls w) (PStr FALLBACK) = Inr (units, fin) \<longrightarrow>
            invoke agent w = (forward units fin, w\<lparr>calls := calls w @ [PStr FALLBACK]\<rparr>))
       \<and> (\<forall>units fin. agent (calls w) (PStr FALLBACK) = Inr (units, fin) \<and> list_all is_mapping units \<longrightarrow>
            fst (invoke agent w) = (filter has_event_key units, stream_end fin))"
  using assms by (simp add: invoke_mapping forward_mappings)

theorem invoke_missing_prompt_uses_fallback_witness:
  "payload \<lparr>payload = PDict [], calls = []\<rparr> = PDict []
   \<and> map_of ([] :: (string \<times> pyval) list) ''prompt'' = None
   \<and> demo_agent [] (PStr FALLBACK) =
       Inr ([PDict [(''event'', PStr ''start'')], PDict [(''data'', PInt 1)],
             PDict [(''event'', PStr ''stop''), (''extra'', PNone)]], Completed)
   \<and> list_all is_mapping [PDict [(''event'', PStr ''start'')], PDict [(''data'', PInt 1)],
                            PDict [(''event'', PStr ''stop''), (''extra'', PNone)]]
   \<and> invoke demo_agent \<lparr>payload = PDict [], calls = []\<rparr> =
       (([PDict [(''event'', PStr ''start'')], PDict [(''event'', PStr ''stop''), (''extra'', PNone)]], Completed),
        \<lparr>payload = PDict [], calls = [PStr FALLBACK]\<rparr>)"
  using invoke_missing_prompt_uses_fallback
    [of "\<lparr>payload = PDict [], calls = []\<rparr>" "[]" demo_agent]
  by (simp add: demo_agent_def)




text \<open>
  C4, as stated, fails: a payload that is not a mapping has no method \<^verbatim>\<open>get\<close>, and the
  access step raises \<^verbatim>\<open>AttributeError\<close>, not \<^verbatim>\<open>TypeError\<close>. The payload here is the
  string \<^verbatim>\<open>"hello"\<close>.
\<close>

theorem non_mapping_payload_type_error_counterexample:
  "\<not> (snd (fst (invoke silent_agent \<lparr>payload = PStr ''hello'', calls = []\<rparr>)) = Raised TypeError)"
  by (simp add: invoke_def leaving_def)

text \<open>
  C4, amended. For every payload that is not a mapping, \<^verbatim>\<open>invoke\<close> fails at the
  payload-access step with \<^verbatim>\<open>AttributeError\<close>; nothing is yielded and the agent is not
  called (the state is unchanged).
\<close>

theorem non_mapping_payload_attribute_error:
  assumes "\<not> is_mapping (payload w)"
  shows "invoke agent w = (([], Raised AttributeError), w)"
proof -
  from assms have "py_get (payload w) ''prompt'' (PStr FALLBACK) = Inl AttributeError"
    by (cases "payload w") simp_all
  then show ?thesis by (simp add: invoke_def leaving_def)
qed

theorem non_mapping_payload_attribute_error_witness:
  "\<not> is_mapping (payload \<lparr>payload = PList [PStr ''prompt''], calls = [PStr ''earlier'']\<rparr>)
   \<and> invoke demo_agent \<lparr>payload = PList [PStr ''prompt''], calls = [PStr ''earlier'']\<rparr> =
       (([], Raised AttributeError), \<lparr>payload = PList [PStr ''prompt''], calls = [PStr ''earlier'']\<rparr>)"
  using non_mapping_payload_attribute_error
    [of "\<lparr>payload = PList [PStr ''prompt''], calls = [PStr ''earlier'']\<rparr>" demo_agent]
  by simp

text \<open>
  C5. A \<^verbatim>\<open>prompt\<close> that is not a string is passed to the agent as it is, with no
  conversion: the call log grows by that very value, and the outcome is what the agent's
  answer to that value gives, forwarded.
\<close>

theorem non_string_prompt_passed_unchanged:
  assumes "payload w = PDict kvs"
    and "map_of kvs ''prompt'' = Some v"
    and "\<not> is_str v"
  shows "invoke agent w = (relay (agent (calls w) v), w\<lparr>calls := calls w @ [v]\<rparr>)"
  using assms by (simp add: invoke_mapping)

theorem non_string_prompt_passed_unchanged_witness:
  "payload \<lparr>payload = PDict [(''prompt'', PInt 42)], calls = []\<rparr> = PDict [(''prompt'', PInt 42)]
   \<and> map_of [(''prompt'', PInt 42)] ''prompt'' = Some (PInt 42)
   \<and> \<not> is_str (PInt 42)
   \<and> calls (snd (invoke counting_agent \<lparr>payload = PDict [(''prompt'', PInt 42)], calls = []\<rparr>)) = [PInt 42]
   \<and> fst (invoke counting_agent \<lparr>payload = PDict [(''prompt'', PInt 42)], calls = []\<rparr>) =
       ([PDict [(''event'', PInt 0)]], Completed)"
  using non_string_prompt_passed_unchanged
    [of "\<lparr>payload = PDict [(''prompt'', PInt 42)], calls = []\<rparr>" "[(''prompt'', PInt 42)]" "PInt 42"
        counting_agent]
  by (simp add: counting_agent_def)

text \<open>
  C6. Two mapping payloads that agree on \<^verbatim>\<open>prompt\<close> (the same value, or absent in both)
  and differ elsewhere give the same call to the agent and the same output, from the same
  call history.
\<close>

theorem unrecognized_keys_ignored:
  assumes "payload w1 = PDict kvs1"
    and "payload w2 = PDict kvs2"
    and "map_of kvs1 ''prompt'' = map_of kvs2 ''prompt''"
    and "calls w1 = calls w2"
  shows "fst (invoke agent w1) = fst (invoke agent w2)
       \<and> calls (snd (invoke agent w1)) = calls (snd (invoke agent w2))"
  using assms by (simp add: invoke_mapping)

theorem unrecognized_keys_ignored_witness:
  "map_of [(''prompt'', PStr ''x''), (''extra'', PInt 1)] ''prompt'' = map_of [(''prompt'', PStr ''x'')] ''prompt''
   \<and> PDict [(''prompt'', PStr ''x''), (''extra'', PInt 1)] \<noteq> PDict [(''prompt'', PStr ''x'')]
   \<and> fst (invoke demo_agent \<lparr>payload = PDict [(''prompt'', PStr ''x''), (''extra'', PInt 1)], calls = []\<rparr>) =
     fst (invoke demo_agent \<lparr>payload = PDict [(''prompt'', PStr ''x'')], calls = []\<rparr>)
   \<and> calls (snd (invoke demo_agent \<lparr>payload = PDict [(''prompt'', PStr ''x''), (''extra'', PInt 1)], calls = []\<rparr>)) =
     calls (snd (invoke demo_agent \<lparr>payload = PDict [(''prompt'', PStr ''x'')], calls = []\<rparr>))"
  using unrecognized_keys_ignored
    [of "\<lparr>payload = PDict [(''prompt'', PStr ''x''), (''extra'', PInt 1)], calls = []\<rparr>"
        "[(''prompt'', PStr ''x''), (''extra'', PInt 1)]"
        "\<lparr>payload = PDict [(''prompt'', PStr ''x'')], calls = []\<rparr>"
        "[(''prompt'', PStr ''x'')]" demo_agent]
  by simp

text \<open>
  C7, as stated, fails: the object under \<^verbatim>\<open>prompt\<close> is handed to the agent itself, so an
  agent that writes to it changes the payload. Here the prompt is the list \<^verbatim>\<open>[1]\<close> and
  the agent appends to it.
\<close>

theorem payload_changed_by_agent_counterexample:
  "\<not> (payload (snd (invoke_aliased appending_agent
          \<lparr>payload = PDict [(''prompt'', PList [PInt 1])], calls = []\<rparr>)) =
        PDict [(''prompt'', PList [PInt 1])])"
  by (simp add: invoke_aliased_def appending_agent_def)

text \<open>
  C7, amended. \<^verbatim>\<open>invoke\<close> itself writes nothing to the payload. After the invocation,
  completed or failed, a mapping payload has the same keys in the same order, and every
  key other than \<^verbatim>\<open>prompt\<close> has the value it had; a payload that is not a mapping is as
  it was. The whole payload is as it was when the key \<^verbatim>\<open>prompt\<close> is absent, when its
  value cannot be written to (a string, a number, a boolean, \<^verbatim>\<open>None\<close>), or when the agent
  leaves it as it found it.
\<close>

theorem payload_written_only_through_prompt:
  "(\<forall>kvs. payload w = PDict kvs \<longrightarrow>
      (\<exists>kvs'. payload (snd (invoke_aliased agent w)) = PDict kvs'
         \<and> map fst kvs' = map fst kvs
         \<and> (\<forall>k. k \<noteq> ''prompt'' \<longrightarrow> map_of kvs' k = map_of kvs k)))
   \<and> (\<not> is_mapping (payload w) \<longrightarrow> payload (snd (invoke_aliased agent w)) = payload w)
   \<and> (\<forall>kvs. payload w = PDict kvs \<and> map_of kvs ''prompt'' = None \<longrightarrow>
        payload (snd (invoke_aliased agent w)) = payload w)
   \<and> (\<forall>kvs v. payload w = PDict kvs \<and> map_of kvs ''prompt'' = Some v
         \<and> (\<not> is_mutable v \<or> snd (agent (calls w) v) = v) \<longrightarrow>
        payload (snd (invoke_aliased agent w)) = payload w)"
proof -
  have keys: "\<exists>kvs'. payload (snd (invoke_aliased agent w)) = PDict kvs'
         \<and> map fst kvs' = map fst kvs
         \<and> (\<forall>k. k \<noteq> ''prompt'' \<longrightarrow> map_of kvs' k = map_of kvs k)"
    if "payload w = PDict kvs" for kvs
    using that by (simp add: invoke_aliased_mapping set_present_keys set_present_other)
  have other: "payload (snd (invoke_aliased agent w)) = payload w" if "\<not> is_mapping (payload w)"
  proof -
    from that have "py_get (payload w) ''prompt'' (PStr FALLBACK) = Inl AttributeError"
      by (cases "payload w") simp_all
    then show ?thesis by (simp add: invoke_aliased_def)
  qed
  have absent: "payload (snd (invoke_aliased agent w)) = payload w"
    if "payload w = PDict kvs" and "map_of kvs ''prompt'' = None" for kvs
    using that by (simp add: invoke_aliased_mapping set_present_absent)
  have kept: "payload (snd (invoke_aliased agent w)) = payload w"
    if "payload w = PDict kvs" and "map_of kvs ''prompt'' = Some v"
      and "\<not> is_mutable v \<or> snd (agent (calls w) v) = v" for kvs v
  proof -
    from that(3) have "py_written v (snd (agent (calls w) v)) = v"
      by (auto simp add: py_written_immutable py_written_same)
    with that(1,2) show ?thesis
      by (simp add: invoke_aliased_mapping set_present_same)
  qed
  from keys other absent kept show ?thesis by blast
qed

theorem payload_written_only_through_prompt_witness:
  "payload (snd (invoke_aliased appending_agent
      \<lparr>payload = PDict [(''id'', PInt 7), (''prompt'', PList [PInt 1]), (''k'', PNone)], calls = []\<rparr>)) =
     PDict [(''id'', PInt 7), (''prompt'', PList [PInt 1, PStr ''mutated'']), (''k'', PNone)]
   \<and> \<not> is_mapping (PInt 3)
   \<and> payload (snd (invoke_aliased appending_agent \<lparr>payload = PInt 3, calls = []\<rparr>)) = PInt 3
   \<and> map_of [(''k'', PList [PInt 1])] ''prompt'' = None
   \<and> payload (snd (invoke_aliased appending_agent \<lparr>payload = PDict [(''k'', PList [PInt 1])], calls = []\<rparr>)) =
       PDict [(''k'', PList [PInt 1])]
   \<and> \<not> is_mutable (PStr ''x'')
   \<and> payload (snd (invoke_aliased appending_agent
        \<lparr>payload = PDict [(''prompt'', PStr ''x''), (''k'', PList [])], calls = []\<rparr>)) =
       PDict [(''prompt'', PStr ''x''), (''k'', PList [])]"
  using payload_written_only_through_prompt
    [of "\<lparr>payload = PDict [(''id'', PInt 7), (''prompt'', PList [PInt 1]), (''k'', PNone)], calls = []\<rparr>"
        appending_agent]
    payload_written_only_through_prompt [of "\<lparr>payload = PInt 3, calls = []\<rparr>" appending_agent]
    payload_written_only_through_prompt
    [of "\<lparr>payload = PDict [(''k'', PList [PInt 1])], calls = []\<rparr>" appending_agent]
    payload_written_only_through_prompt
    [of "\<lparr>payload = PDict [(''prompt'', PStr ''x''), (''k'', PList [])], calls = []\<rparr>" appending_agent]
  by (simp add: invoke_aliased_def appending_agent_def)

text \<open>
  C8. Two invocations with the same payload call the agent twice, with the same prompt,
  and the output of the second is what the agent's answer to the second call gives
  (which the agent answers knowing the first), not a stored copy of the first output.
\<close>

theorem second_invocation_opens_new_stream:
  assumes "payload w = PDict kvs"
    and "p = (case map_of kvs ''prompt'' of None \<Rightarrow> PStr FALLBACK | Some v \<Rightarrow> v)"
  shows "calls (snd (invoke agent (snd (invoke agent w)))) = calls w @ [p, p]
       \<and> fst (invoke agent w) = relay (agent (calls w) p)
       \<and> fst (invoke agent (snd (invoke agent w))) = relay (agent (calls w @ [p]) p)"
proof -
  from assms have first: "invoke agent w = (relay (agent (calls w) p), w\<lparr>calls := calls w @ [p]\<rparr>)"
    by (simp add: invoke_mapping)
  have "payload (w\<lparr>calls := calls w @ [p]\<rparr>) = PDict kvs"
    using assms(1) by simp
  then have second: "invoke agent (w\<lparr>calls := calls w @ [p]\<rparr>) =
      (relay (agent (calls w @ [p]) p), w\<lparr>calls := calls w @ [p, p]\<rparr>)"
    using assms(2) by (simp add: invoke_mapping)
  from first second show ?thesis by simp
qed

theorem second_invocation_opens_new_stream_witness:
  "payload \<lparr>payload = PDict [(''prompt'', PStr ''x'')], calls = []\<rparr> = PDict [(''prompt'', PStr ''x'')]
   \<and> calls (snd (invoke counting_agent (snd (invoke counting_agent
        \<lparr>payload = PDict [(''prompt'', PStr ''x'')], calls = []\<rparr>)))) = [PStr ''x'', PStr ''x'']
   \<and> fst (invoke counting_agent \<lparr>payload = PDict [(''prompt'', PStr ''x'')], calls = []\<rparr>) =
       ([PDict [(''event'', PInt 0)]], Completed)
   \<and> fst (invoke counting_agent (snd (invoke counting_agent
        \<lparr>payload = PDict [(''prompt'', PStr ''x'')], calls = []\<rparr>))) =
       ([PDict [(''event'', PInt 1)]], Completed)"
  using second_invocation_opens_new_stream
    [of "\<lparr>payload = PDict [(''prompt'', PStr ''x'')], calls = []\<rparr>" "[(''prompt'', PStr ''x'')]"
        "PStr ''x''" counting_agent]
  by (simp add: counting_agent_def)



text \<open>
  C10. The test on a unit is Python's containment test. After a run of mapping units, a
  string unit is yielded exactly when \<^verbatim>\<open>event\<close> occurs in it as a substring, and the
  loop goes on; a unit with no containment test (an integer, say) ends the generator with
  \<^verbatim>\<open>TypeError\<close> at that unit, after the events yielded before it.
\<close>

theorem filter_is_generic_containment:
  assumes "payload w = PDict kvs"
    and "agent (calls w) (case map_of kvs ''prompt'' of None \<Rightarrow> PStr FALLBACK | Some v \<Rightarrow> v) =
           Inr (pre @ u # post, fin)"
    and "list_all is_mapping pre"
  shows "(\<forall>s. u = PStr s \<longrightarrow>
            fst (invoke agent w) =
              (filter has_event_key pre @ (if sublist ''event'' s then [u] else []) @ fst (forward post fin),
               snd (forward post fin)))
       \<and> (\<not> has_containment u \<longrightarrow> fst (invoke agent w) = (filter has_event_key pre, Raised TypeError))"
proof -
  from assms have out: "fst (invoke agent w) =
      (filter has_event_key pre @ fst (forward (u # post) fin), snd (forward (u # post) fin))"
    by (simp add: invoke_mapping forward_append_mappings)
  have "fst (invoke agent w) =
          (filter has_event_key pre @ (if sublist ''event'' s then [u] else []) @ fst (forward post fin),
           snd (forward post fin))" if "u = PStr s" for s
    using out that by (simp add: is_substr_sublist)
  moreover have "fst (invoke agent w) = (filter has_event_key pre, Raised TypeError)"
    if "\<not> has_containment u"
    using out that by (simp add: py_contains_no_containment leaving_def)
  ultimately show ?thesis by blast
qed

theorem filter_is_generic_containment_witness:
  "list_all is_mapping [PDict [(''event'', PInt 0)]]
   \<and> sublist ''event'' ''an event''
   \<and> \<not> has_containment (PInt 5)
   \<and> fst (invoke mixed_agent \<lparr>payload = PDict [(''prompt'', PStr ''strings'')], calls = []\<rparr>) =
       ([PDict [(''event'', PInt 0)], PStr ''an event''], Completed)
   \<and> fst (invoke mixed_agent \<lparr>payload = PDict [(''prompt'', PStr ''numbers'')], calls = []\<rparr>) =
       ([PDict [(''event'', PInt 0)]], Raised TypeError)"
  using filter_is_generic_containment
    [of "\<lparr>payload = PDict [(''prompt'', PStr ''strings'')], calls = []\<rparr>"
        "[(''prompt'', PStr ''strings'')]" mixed_agent "[PDict [(''event'', PInt 0)]]"
        "PStr ''an event''" "[PDict [(''data'', PInt 1)]]" Completed]
    filter_is_generic_containment
    [of "\<lparr>payload = PDict [(''prompt'', PStr ''numbers'')], calls = []\<rparr>"
        "[(''prompt'', PStr ''numbers'')]" mixed_agent "[PDict [(''event'', PInt 0)]]"
        "PInt 5" "[PDict [(''event'', PInt 2)]]" Completed]
  by (simp add: mixed_agent_def is_substr_sublist [symmetric])

end
